theory Spec2Isabelle
  imports
    Main
    "HOL-Library.Multiset"
    "HOL-Library.Char_ord"
    "HOL-Library.List_Lexorder"
begin

section \<open>The coaches top-3 pipeline (dags/coaches\_top3\_dag.py)\<close>

text \<open>
  The DAG runs five tasks in sequence. This development embeds the two that compute and
  store the ranking: \<open>transform_data\<close> and \<open>load_to_database\<close>. Both are written in
  the source as chains of pandas and sqlite3 calls; each call is embedded as the list
  function that the library documents for it, and the places where a call raises are
  branches of the model.
\<close>

subsection \<open>Input records\<close>

text \<open>
  The extract tasks push each source as a list of dictionaries (\<open>to_dict('records')\<close>
  for the CSV and Excel sheets, the parsed JSON array for the results). The transform
  reads two keys of each: \<open>athlete_id\<close> and \<open>place\<close> of a result, \<open>athlete_id\<close>
  and \<open>coach_id\<close> of an athlete, \<open>coach_id\<close> and \<open>coach_name\<close> of a coach. Any other
  column is carried through the joins and never read, so the records hold these keys only.
  Column names that would collide across the three frames (and be suffixed by the merge)
  are outside this input type.
\<close>

record result =
  r_athlete_id :: int
  r_place :: int

record athlete =
  a_athlete_id :: int
  a_coach_id :: int

record coach =
  c_coach_id :: int
  c_coach_name :: string

text \<open>One record of the pushed ranking: \<open>{'coach_name': ..., 'first_places': ...}\<close>.\<close>

type_synonym entry = "string \<times> nat"

datatype error = KeyError string

subsection \<open>The pandas operations of transform\_data\<close>

text \<open>
  \<open>pd.DataFrame(data)\<close> of an empty list is a frame with no rows and \<^emph>\<open>no columns\<close>;
  of a non-empty list of records it has the records' keys as columns. Selecting a column,
  or merging on a column, that the frame does not have raises \<open>KeyError\<close>. A frame that
  lost all its rows to a filter or a join keeps its columns. So a frame is a list of
  rows, and the column test is made on the list the frame was built from.
\<close>

definition has_columns :: "'a list \<Rightarrow> bool" where
  "has_columns data \<longleftrightarrow> data \<noteq> []"

text \<open>\<open>df_results[df_results['place'] == 1]\<close>: the rows whose place is 1, in order.\<close>

definition winners_of :: "result list \<Rightarrow> result list" where
  "winners_of df_results = filter (\<lambda>r. r_place r = 1) df_results"

text \<open>
  \<open>left.merge(right, on=key)\<close> is an inner join: one output row for every pair of a
  left row and a right row with equal keys; a left row with no partner yields no row, a
  left row with several partners yields several. The rows are listed in the order of the
  left frame, the partners of one left row in the order of the right frame. (The
  aggregation below depends on the rows only up to their order.)

  The keys are compared exactly. That is what pandas does when both key columns are
  \<open>int64\<close>, which is the dtype a column of integers gets when every value lies in the
  signed 64-bit range. A column holding an id of \<open>2^63\<close> or more gets another dtype,
  and a merge of key columns of different dtypes compares them after a conversion in
  which ids that differ can become equal. \<open>df_merge\<close> is not the merge of such columns:
  \<open>ids_in_range\<close> says that every id of the three inputs is in the signed 64-bit range,
  and the properties below that depend on which rows the joins match are stated under it.
\<close>

definition df_merge :: "('a \<Rightarrow> int) \<Rightarrow> ('b \<Rightarrow> int) \<Rightarrow> 'a list \<Rightarrow> 'b list \<Rightarrow> ('a \<times> 'b) list" where
  "df_merge lkey rkey left right =
     concat (map (\<lambda>l. map (Pair l) (filter (\<lambda>r. rkey r = lkey l) right)) left)"

definition int64 :: "int \<Rightarrow> bool" where
  "int64 i \<longleftrightarrow> - (2 ^ 63) \<le> i \<and> i < 2 ^ 63"

definition ids_in_range :: "athlete list \<Rightarrow> coach list \<Rightarrow> result list \<Rightarrow> bool" where
  "ids_in_range athletes coaches results \<longleftrightarrow>
     list_all (\<lambda>a. int64 (a_athlete_id a) \<and> int64 (a_coach_id a)) athletes \<and>
     list_all (\<lambda>c. int64 (c_coach_id c)) coaches \<and>
     list_all (\<lambda>r. int64 (r_athlete_id r)) results"

definition merged_of :: "result list \<Rightarrow> athlete list \<Rightarrow> coach list \<Rightarrow> ((result \<times> athlete) \<times> coach) list" where
  "merged_of winners df_athletes df_coaches =
     df_merge (\<lambda>ra. a_coach_id (snd ra)) c_coach_id
       (df_merge r_athlete_id a_athlete_id winners df_athletes) df_coaches"

text \<open>
  \<open>groupby('coach_name').size().reset_index(name='first_places')\<close>: one row per distinct
  coach name occurring in the frame, in ascending order of the name (\<open>sort=True\<close> is the
  default of \<open>groupby\<close>), with the number of rows carrying that name. Strings are ordered
  lexicographically by character code, as Python orders them.
\<close>

definition groupby_size :: "string list \<Rightarrow> entry list" where
  "groupby_size names = map (\<lambda>k. (k, count_list names k)) (sort (remdups names))"

text \<open>
  \<open>sort_values('first_places', ascending=False)\<close> sorts with the default
  \<open>kind='quicksort'\<close>, which pandas documents as not stable: the rows come back
  rearranged so that the counts do not increase, and the order among equal counts is
  whatever the sorting routine of the installed numpy produces. The routine is not part
  of this repository, so it is a parameter \<open>srt\<close> of the model, and \<open>sort_values_ok\<close>
  is what is known of it.
\<close>

definition sort_values_ok :: "(entry list \<Rightarrow> entry list) \<Rightarrow> bool" where
  "sort_values_ok srt \<longleftrightarrow>
     (\<forall>xs. mset (srt xs) = mset xs \<and> sorted_wrt (\<lambda>a b. snd b \<le> snd a) (srt xs))"

text \<open>
  One routine that meets it, used to run the model on concrete inputs: a stable sort by
  descending count, written as pandas arranges a descending sort around an ascending one
  (reverse, sort ascending, reverse again). Entries with equal counts keep the order in
  which \<open>groupby\<close> laid them out. None of the concrete inputs of this development has two
  groups with equal counts, so the outcome on each of them is the same under every
  routine that meets \<open>sort_values_ok\<close> (\<open>transform_data_no_ties\<close> below).
\<close>

definition stable_sort_values :: "entry list \<Rightarrow> entry list" where
  "stable_sort_values xs = rev (sort_key snd (rev xs))"

subsection \<open>transform\_data\<close>

text \<open>
  The three lists are the values pulled from XCom, in the order the source pulls them.
  The result is the list pushed under the key \<open>top_coaches\<close>
  (\<open>top_coaches.to_dict('records')\<close>), or the exception that ends the task.
  The source, step by step:
  \<^item> \<open>df_results['place']\<close> raises \<open>KeyError('place')\<close> on a frame without columns;
  \<^item> \<open>winners.merge(df_athletes, on='athlete_id')\<close> raises \<open>KeyError('athlete_id')\<close>
    when the athletes frame has no columns;
  \<^item> \<open>.merge(df_coaches, on='coach_id')\<close> raises \<open>KeyError('coach_id')\<close> likewise;
  \<^item> group by coach name, count, sort by the count descending, \<open>head(3)\<close>.
\<close>

text \<open>The column \<open>coach_name\<close> of the merged frame, which \<open>groupby\<close> reads.\<close>

definition coach_name_column :: "((result \<times> athlete) \<times> coach) list \<Rightarrow> string list" where
  "coach_name_column merged = map (\<lambda>m. c_coach_name (snd m)) merged"

definition transform_data ::
  "(entry list \<Rightarrow> entry list) \<Rightarrow> athlete list \<Rightarrow> coach list \<Rightarrow> result list \<Rightarrow> error + entry list" where
  "transform_data srt athletes_data coaches_data results_data =
     (if \<not> has_columns results_data then Inl (KeyError ''place'')
      else
        let winners = winners_of results_data in
        if \<not> has_columns athletes_data then Inl (KeyError ''athlete_id'')
        else if \<not> has_columns coaches_data then Inl (KeyError ''coach_id'')
        else
          let merged = merged_of winners athletes_data coaches_data;
              top_coaches = take 3 (srt (groupby_size (coach_name_column merged)))
          in Inr top_coaches)"

subsection \<open>load\_to\_database\<close>

text \<open>
  The table \<open>top_coaches(id INTEGER PRIMARY KEY AUTOINCREMENT, coach_name TEXT,
  first_places INTEGER, analysis_date TIMESTAMP DEFAULT CURRENT_TIMESTAMP)\<close>.
\<close>

record row =
  row_id :: nat
  coach_name :: string
  first_places :: nat
  analysis_date :: nat

text \<open>
  The table as SQLite holds it: its rows, and the largest id it has ever handed out
  (SQLite keeps it in \<open>sqlite_sequence\<close> for an \<open>AUTOINCREMENT\<close> key, and \<open>DELETE\<close>
  does not reset it). Ids are unbounded here; SQLite's are below \<open>2^63\<close>.
  The database file either has the table or does not have it yet.
\<close>

record table =
  rows :: "row list"
  seq :: nat

type_synonym db = "table option"

text \<open>\<open>CREATE TABLE IF NOT EXISTS top_coaches (...)\<close>\<close>

definition create_table :: "db \<Rightarrow> table" where
  "create_table d = (case d of None \<Rightarrow> \<lparr>rows = [], seq = 0\<rparr> | Some t \<Rightarrow> t)"

text \<open>\<open>DELETE FROM top_coaches\<close>\<close>

definition delete_all :: "table \<Rightarrow> table" where
  "delete_all t = t\<lparr>rows := []\<rparr>"

text \<open>
  \<open>df.to_sql('top_coaches', conn, if_exists='append', index=False)\<close> on the existing
  table: one \<open>INSERT\<close> per row of the frame, naming the columns \<open>coach_name\<close> and
  \<open>first_places\<close>. SQLite fills \<open>id\<close> with one more than the largest id in use or
  ever handed out, and \<open>analysis_date\<close> with the time of the insert: \<open>clock i\<close> is
  the time at which the \<open>i\<close>-th row is inserted. A frame without rows inserts nothing.
\<close>

fun insert_rows :: "(nat \<Rightarrow> nat) \<Rightarrow> nat \<Rightarrow> entry list \<Rightarrow> table \<Rightarrow> table" where
  "insert_rows clock i [] t = t"
| "insert_rows clock i (e # es) t =
     (let new_id = Suc (max (seq t) (fold max (map row_id (rows t)) 0))
      in insert_rows clock (Suc i) es
           \<lparr>rows = rows t @ [\<lparr>row_id = new_id, coach_name = fst e, first_places = snd e,
                               analysis_date = clock i\<rparr>],
            seq = new_id\<rparr>)"

definition to_sql_append :: "(nat \<Rightarrow> nat) \<Rightarrow> entry list \<Rightarrow> table \<Rightarrow> table" where
  "to_sql_append clock df t = insert_rows clock 0 df t"

text \<open>
  The task: create the table if it is missing, delete every row, append the frame,
  commit. \<open>data\<close> is the list pulled from XCom under \<open>top_coaches\<close>; the result is the
  database file after the commit.
\<close>

definition load_to_database :: "(nat \<Rightarrow> nat) \<Rightarrow> entry list \<Rightarrow> db \<Rightarrow> db" where
  "load_to_database clock data d =
     Some (to_sql_append clock data (delete_all (create_table d)))"

text \<open>What a reader of the table sees of its rows besides their ids and dates.\<close>

definition stored_entries :: "db \<Rightarrow> entry list option" where
  "stored_entries d = map_option (\<lambda>t. map (\<lambda>r. (coach_name r, first_places r)) (rows t)) d"

subsection \<open>The specification's words\<close>

text \<open>
  The coaches ``having at least one qualifying result that joins through to them'': a
  result with place 1, an athlete record with that result's athlete id, and the coach's
  id as that athlete's coach id.
\<close>

definition qualifying_coaches :: "athlete list \<Rightarrow> coach list \<Rightarrow> result list \<Rightarrow> coach list" where
  "qualifying_coaches athletes coaches results =
     filter (\<lambda>c. \<exists>r\<in>set results. r_place r = 1 \<and>
                (\<exists>a\<in>set athletes. a_athlete_id a = r_athlete_id r \<and> a_coach_id a = c_coach_id c))
       coaches"

text \<open>The number of distinct values in a list.\<close>

definition n_distinct :: "'a list \<Rightarrow> nat" where
  "n_distinct xs = length (remdups xs)"

text \<open>
  A result row that does not join: no athlete record has its athlete id, or every
  athlete record that has it names a coach id that no coach record has.
\<close>

definition unjoinable :: "athlete list \<Rightarrow> coach list \<Rightarrow> result \<Rightarrow> bool" where
  "unjoinable athletes coaches r \<longleftrightarrow>
     (\<forall>a\<in>set athletes. a_athlete_id a \<noteq> r_athlete_id r) \<or>
     (\<forall>a\<in>set athletes. a_athlete_id a = r_athlete_id r \<longrightarrow>
        (\<forall>c\<in>set coaches. c_coach_id c \<noteq> a_coach_id a))"

text \<open>
  Counting by join multiplicity, from the coach's side: the first places of one athlete
  record, of one coach record (every athlete record naming its id counts, also a
  repeated one), and of a coach name (every coach record of that name counts, whatever
  its id).
\<close>

definition wins_of_athlete :: "result list \<Rightarrow> athlete \<Rightarrow> nat" where
  "wins_of_athlete results a =
     length (filter (\<lambda>r. r_place r = 1 \<and> r_athlete_id r = a_athlete_id a) results)"

definition wins_of_coach :: "athlete list \<Rightarrow> result list \<Rightarrow> coach \<Rightarrow> nat" where
  "wins_of_coach athletes results c =
     sum_list (map (wins_of_athlete results) (filter (\<lambda>a. a_coach_id a = c_coach_id c) athletes))"

definition wins_of_name :: "athlete list \<Rightarrow> coach list \<Rightarrow> result list \<Rightarrow> string \<Rightarrow> nat" where
  "wins_of_name athletes coaches results n =
     sum_list (map (wins_of_coach athletes results) (filter (\<lambda>c. c_coach_name c = n) coaches))"

text \<open>
  The same count from the results' side: the triples of a result, an athlete record and a
  coach record that the two joins put in one row, and whose coach is named \<open>n\<close>.
\<close>

definition joined_triples :: "athlete list \<Rightarrow> coach list \<Rightarrow> result list \<Rightarrow> string \<Rightarrow> nat" where
  "joined_triples athletes coaches results n =
     sum_list (map (\<lambda>r. sum_list (map (\<lambda>a. sum_list (map (\<lambda>c.
        if r_place r = 1 \<and> a_athlete_id a = r_athlete_id r \<and> c_coach_id c = a_coach_id a \<and>
           c_coach_name c = n
        then 1 else 0) coaches)) athletes)) results)"

subsection \<open>Concrete inputs\<close>

text \<open>The example of the specification.\<close>

definition example_athletes :: "athlete list" where
  "example_athletes =
     [\<lparr>a_athlete_id = 1, a_coach_id = 10\<rparr>, \<lparr>a_athlete_id = 2, a_coach_id = 10\<rparr>,
      \<lparr>a_athlete_id = 3, a_coach_id = 11\<rparr>]"

definition example_coaches :: "coach list" where
  "example_coaches =
     [\<lparr>c_coach_id = 10, c_coach_name = ''A''\<rparr>, \<lparr>c_coach_id = 11, c_coach_name = ''B''\<rparr>]"

definition example_results :: "result list" where
  "example_results =
     [\<lparr>r_athlete_id = 1, r_place = 1\<rparr>, \<lparr>r_athlete_id = 2, r_place = 1\<rparr>,
      \<lparr>r_athlete_id = 3, r_place = 2\<rparr>]"

text \<open>Two coaches with different ids and one name, each with one winning athlete.\<close>

definition namesake_athletes :: "athlete list" where
  "namesake_athletes =
     [\<lparr>a_athlete_id = 1, a_coach_id = 10\<rparr>, \<lparr>a_athlete_id = 2, a_coach_id = 11\<rparr>]"

definition namesake_coaches :: "coach list" where
  "namesake_coaches =
     [\<lparr>c_coach_id = 10, c_coach_name = ''A''\<rparr>, \<lparr>c_coach_id = 11, c_coach_name = ''A''\<rparr>]"

definition namesake_results :: "result list" where
  "namesake_results =
     [\<lparr>r_athlete_id = 1, r_place = 1\<rparr>, \<lparr>r_athlete_id = 2, r_place = 1\<rparr>]"

text \<open>
  Four coaches A, B, C and D with 2, 3, 1 and 4 first places, an athlete (6) whose coach
  (77) nobody lists, and no record of an athlete 99.
\<close>

definition league_athletes :: "athlete list" where
  "league_athletes =
     [\<lparr>a_athlete_id = 1, a_coach_id = 10\<rparr>, \<lparr>a_athlete_id = 2, a_coach_id = 11\<rparr>,
      \<lparr>a_athlete_id = 3, a_coach_id = 12\<rparr>, \<lparr>a_athlete_id = 4, a_coach_id = 13\<rparr>,
      \<lparr>a_athlete_id = 5, a_coach_id = 13\<rparr>, \<lparr>a_athlete_id = 6, a_coach_id = 77\<rparr>]"

definition league_coaches :: "coach list" where
  "league_coaches =
     [\<lparr>c_coach_id = 10, c_coach_name = ''A''\<rparr>, \<lparr>c_coach_id = 11, c_coach_name = ''B''\<rparr>,
      \<lparr>c_coach_id = 12, c_coach_name = ''C''\<rparr>, \<lparr>c_coach_id = 13, c_coach_name = ''D''\<rparr>]"

definition league_results :: "result list" where
  "league_results =
     [\<lparr>r_athlete_id = 1, r_place = 1\<rparr>, \<lparr>r_athlete_id = 1, r_place = 1\<rparr>,
      \<lparr>r_athlete_id = 2, r_place = 1\<rparr>, \<lparr>r_athlete_id = 2, r_place = 1\<rparr>,
      \<lparr>r_athlete_id = 2, r_place = 1\<rparr>, \<lparr>r_athlete_id = 3, r_place = 1\<rparr>,
      \<lparr>r_athlete_id = 4, r_place = 1\<rparr>, \<lparr>r_athlete_id = 4, r_place = 1\<rparr>,
      \<lparr>r_athlete_id = 5, r_place = 1\<rparr>, \<lparr>r_athlete_id = 5, r_place = 1\<rparr>,
      \<lparr>r_athlete_id = 3, r_place = 2\<rparr>]"

text \<open>
  One athlete id on two athlete records, and two coaches of one name: athlete 2 is listed
  twice under coach 11, and coaches 10 and 11 are both named A.
\<close>

definition rematch_athletes :: "athlete list" where
  "rematch_athletes =
     [\<lparr>a_athlete_id = 1, a_coach_id = 10\<rparr>, \<lparr>a_athlete_id = 2, a_coach_id = 11\<rparr>,
      \<lparr>a_athlete_id = 2, a_coach_id = 11\<rparr>]"

section \<open>Properties\<close>

subsection \<open>The sorting routine\<close>

lemma stable_sort_values_ok: "sort_values_ok stable_sort_values"
proof -
  have "sorted_wrt (\<lambda>a b. snd b \<le> snd a) (rev (sort_key snd (rev xs)))" for xs :: "entry list"
  proof -
    have "sorted (map snd (sort_key snd (rev xs)))"
      by (rule sorted_sort_key)
    then have "sorted_wrt (\<lambda>a b. snd a \<le> snd b) (sort_key snd (rev xs))"
      by (simp only: sorted_map)
    then show ?thesis
      by (simp only: sorted_wrt_rev)
  qed
  then show ?thesis
    unfolding sort_values_ok_def stable_sort_values_def by simp
qed

lemma sort_values_ok_length: "sort_values_ok srt \<Longrightarrow> length (srt xs) = length xs"
  unfolding sort_values_ok_def by (metis size_mset)

lemma sort_values_ok_set: "sort_values_ok srt \<Longrightarrow> set (srt xs) = set xs"
  unfolding sort_values_ok_def by (metis set_mset_mset)

lemma sort_values_ok_sorted:
  "sort_values_ok srt \<Longrightarrow> sorted_wrt (\<lambda>a b. snd b \<le> snd a) (srt xs)"
  unfolding sort_values_ok_def by blast

lemma sort_values_ok_single: "sort_values_ok srt \<Longrightarrow> srt [x] = [x]"
  unfolding sort_values_ok_def by (metis mset_single_iff mset.simps)

text \<open>Without equal counts there is one way to sort, so the routine does not matter.\<close>

lemma sort_values_ok_unique:
  assumes "sort_values_ok srt" and "distinct (map snd xs)"
  shows "srt xs = stable_sort_values xs"
proof -
  let ?ys = "srt xs" and ?zs = "stable_sort_values xs"
  have ms: "mset ?ys = mset xs" "mset ?zs = mset xs"
    using assms(1) stable_sort_values_ok unfolding sort_values_ok_def by simp_all
  have so: "sorted_wrt (\<lambda>a b. snd b \<le> snd a) ?ys" "sorted_wrt (\<lambda>a b. snd b \<le> snd a) ?zs"
    using assms(1) stable_sort_values_ok unfolding sort_values_ok_def by simp_all
  have mm: "mset (map snd ?ys) = mset (map snd xs)" "mset (map snd ?zs) = mset (map snd xs)"
    using ms by simp_all
  have di: "distinct (map snd ?ys)" "distinct (map snd ?zs)"
    using mm assms(2) by (metis mset_eq_imp_distinct_iff)+
  have s: "sorted (rev (map snd ?ys))" "sorted (rev (map snd ?zs))"
    using so by (simp_all add: sorted_wrt_rev sorted_wrt_map)
  have d: "distinct (rev (map snd ?ys))" "distinct (rev (map snd ?zs))"
    using di by simp_all
  have "set (rev (map snd ?ys)) = set (rev (map snd ?zs))"
    using mm by (metis mset_eq_setD set_rev)
  then have "rev (map snd ?ys) = rev (map snd ?zs)"
    by (rule sorted_distinct_set_unique[OF s(1) d(1) s(2) d(2)])
  then have eq: "map snd ?ys = map snd ?zs"
    by simp
  have "inj_on snd (set xs)"
    using assms(2) by (simp add: distinct_map)
  moreover have "set ?ys = set xs" "set ?zs = set xs"
    using ms by (metis mset_eq_setD)+
  ultimately have "inj_on snd (set ?ys \<union> set ?zs)"
    by simp
  with eq show ?thesis
    by (rule map_inj_on)
qed

subsection \<open>When transform\_data returns, and what\<close>

lemma transform_data_no_ties:
  assumes "sort_values_ok srt"
    and "distinct (map snd (groupby_size
           (coach_name_column (merged_of (winners_of results) athletes coaches))))"
  shows "transform_data srt athletes coaches results =
         transform_data stable_sort_values athletes coaches results"
  by (simp add: transform_data_def Let_def sort_values_ok_unique[OF assms])

lemma concrete_inputs_no_ties:
  "distinct (map snd (groupby_size (coach_name_column
     (merged_of (winners_of example_results) example_athletes example_coaches))))"
  "distinct (map snd (groupby_size (coach_name_column
     (merged_of (winners_of namesake_results) namesake_athletes namesake_coaches))))"
  "distinct (map snd (groupby_size (coach_name_column
     (merged_of (winners_of league_results) league_athletes league_coaches))))"
  "distinct (map snd (groupby_size (coach_name_column
     (merged_of (winners_of namesake_results) rematch_athletes namesake_coaches))))"
  by code_simp+

lemma transform_data_Inr:
  "transform_data srt athletes coaches results = Inr out \<longleftrightarrow>
     results \<noteq> [] \<and> athletes \<noteq> [] \<and> coaches \<noteq> [] \<and>
     out = take 3 (srt (groupby_size
             (coach_name_column (merged_of (winners_of results) athletes coaches))))"
  by (auto simp: transform_data_def has_columns_def Let_def)

lemma length_groupby_size: "length (groupby_size names) = card (set names)"
  by (simp add: groupby_size_def length_remdups_card_conv)

lemma map_fst_groupby_size: "map fst (groupby_size names) = sort (remdups names)"
  by (simp add: groupby_size_def comp_def)

lemma set_groupby_size:
  "e \<in> set (groupby_size names) \<Longrightarrow> snd e = count_list names (fst e) \<and> fst e \<in> set names"
  by (auto simp: groupby_size_def)

lemma set_df_merge:
  "set (df_merge lkey rkey left right) =
     {(l, r). l \<in> set left \<and> r \<in> set right \<and> rkey r = lkey l}"
  by (auto simp: df_merge_def)

lemma set_coach_name_column:
  "set (coach_name_column (merged_of (winners_of results) athletes coaches)) =
     c_coach_name ` set (qualifying_coaches athletes coaches results)"
  by (force simp: coach_name_column_def merged_of_def set_df_merge winners_of_def
        qualifying_coaches_def)

lemma n_distinct_map: "n_distinct (map f xs) = card (f ` set xs)"
  by (simp add: n_distinct_def length_remdups_card_conv)

lemma league_run:
  "transform_data stable_sort_values league_athletes league_coaches league_results =
     Inr [(''D'', 4), (''B'', 3), (''A'', 2)]"
  by code_simp

lemma league_ids: "ids_in_range league_athletes league_coaches league_results"
  by code_simp

subsection \<open>The size of the ranking\<close>

text \<open>
  C1 (as amended). For inputs whose ids are all in the signed 64-bit range: whenever
  \<open>transform_data\<close> returns a ranking, its length is the smaller of 3 and the number of
  distinct coach \<^emph>\<open>names\<close> among the coaches that have at least one first place joining
  through to them; and every entry has a count of at least one, so a coach without first
  places has no entry. The groups are formed on \<open>coach_name\<close>, so coaches are told
  apart by name, not by identifier.
\<close>

theorem transform_data_length:
  assumes "sort_values_ok srt"
    and "transform_data srt athletes coaches results = Inr out"
    and "ids_in_range athletes coaches results"
  shows "length out =
           min 3 (n_distinct (map c_coach_name (qualifying_coaches athletes coaches results))) \<and>
         (\<forall>e\<in>set out. 0 < snd e)"
proof -
  let ?names = "coach_name_column (merged_of (winners_of results) athletes coaches)"
  from assms(2) have out: "out = take 3 (srt (groupby_size ?names))"
    by (simp add: transform_data_Inr)
  have "length out = min 3 (card (set ?names))"
    by (simp add: out sort_values_ok_length[OF assms(1)] length_groupby_size min.commute)
  then have len: "length out =
      min 3 (n_distinct (map c_coach_name (qualifying_coaches athletes coaches results)))"
    by (simp add: set_coach_name_column n_distinct_map)
  have "0 < snd e" if "e \<in> set out" for e
  proof -
    from that have "e \<in> set (srt (groupby_size ?names))"
      unfolding out by (rule in_set_takeD)
    then have "e \<in> set (groupby_size ?names)"
      by (simp add: sort_values_ok_set[OF assms(1)])
    then have "snd e = count_list ?names (fst e)" and "fst e \<in> set ?names"
      by (simp_all add: set_groupby_size)
    then show ?thesis
      using count_list_0_iff[of ?names "fst e"] by simp
  qed
  with len show ?thesis by blast
qed

text \<open>
  Four coaches qualify in the league input and three are ranked; C, with one first
  place, is cut by \<open>head(3)\<close>.
\<close>

theorem transform_data_length_witness:
  "sort_values_ok stable_sort_values \<and>
   ids_in_range league_athletes league_coaches league_results \<and>
   transform_data stable_sort_values league_athletes league_coaches league_results =
     Inr [(''D'', 4), (''B'', 3), (''A'', 2)] \<and>
   n_distinct (map c_coach_name
     (qualifying_coaches league_athletes league_coaches league_results)) = 4 \<and>
   length [(''D'', 4::nat), (''B'', 3), (''A'', 2)] = min 3 4"
proof -
  have "n_distinct (map c_coach_name
          (qualifying_coaches league_athletes league_coaches league_results)) = 4"
    by code_simp
  with transform_data_length[OF stable_sort_values_ok league_run league_ids] league_run
    stable_sort_values_ok league_ids
  show ?thesis by simp
qed

text \<open>
  Counting the coaches by identifier, as the claim reads, gives a different number when
  two coaches share a name: coaches 10 and 11, both named A, have one first place each,
  so two distinct coaches qualify, and the ranking has the single entry \<open>(A, 2)\<close>.
  The ids of this input are small.
\<close>

theorem transform_data_length_by_id_counterexample:
  "ids_in_range namesake_athletes namesake_coaches namesake_results \<and>
   transform_data stable_sort_values namesake_athletes namesake_coaches namesake_results =
     Inr [(''A'', 2)] \<and>
   length [(''A'', 2::nat)] = 1 \<and>
   min 3 (n_distinct (map c_coach_id
     (qualifying_coaches namesake_athletes namesake_coaches namesake_results))) = 2 \<and>
   min 3 (n_distinct
     (qualifying_coaches namesake_athletes namesake_coaches namesake_results)) = 2"
  by code_simp

subsection \<open>The order of the ranking\<close>

text \<open>
  C2. The ranking that \<open>transform_data\<close> returns is sorted non-increasing by count: of
  any two adjacent entries, the later one's count is at most the earlier one's.
\<close>

theorem transform_data_sorted:
  assumes "sort_values_ok srt"
    and "transform_data srt athletes coaches results = Inr out"
  shows "\<forall>i. Suc i < length out \<longrightarrow> snd (out ! Suc i) \<le> snd (out ! i)"
proof -
  from assms(2) obtain g where out: "out = take 3 (srt g)"
    by (auto simp: transform_data_Inr)
  have "sorted_wrt (\<lambda>a b. snd b \<le> snd a) out"
    unfolding out by (rule sorted_wrt_take) (rule sort_values_ok_sorted[OF assms(1)])
  then show ?thesis
    by (auto intro: sorted_wrt_nth_less)
qed

theorem transform_data_sorted_witness:
  "sort_values_ok stable_sort_values \<and>
   transform_data stable_sort_values league_athletes league_coaches league_results =
     Inr [(''D'', 4), (''B'', 3), (''A'', 2)] \<and>
   (3::nat) \<le> 4 \<and> (2::nat) \<le> 3"
proof -
  from transform_data_sorted[OF stable_sort_values_ok league_run]
  have "snd ([(''D'', 4::nat), (''B'', 3), (''A'', 2)] ! Suc 0)
          \<le> snd ([(''D'', 4::nat), (''B'', 3), (''A'', 2)] ! 0)"
    and "snd ([(''D'', 4::nat), (''B'', 3), (''A'', 2)] ! Suc 1)
          \<le> snd ([(''D'', 4::nat), (''B'', 3), (''A'', 2)] ! 1)"
    by simp_all
  with league_run stable_sort_values_ok show ?thesis by simp
qed

subsection \<open>The example of the specification\<close>

text \<open>
  C3. On results \<open>[{athlete 1, place 1}, {athlete 2, place 1}, {athlete 3, place 2}]\<close>,
  athletes \<open>[{1, coach 10}, {2, coach 10}, {3, coach 11}]\<close> and coaches
  \<open>[{10, A}, {11, B}]\<close> the ranking is exactly \<open>[(A, 2)]\<close>: coach A has two first
  places and coach B is absent. This holds whatever the sorting routine does with ties.
\<close>

theorem transform_data_example:
  assumes "sort_values_ok srt"
  shows "transform_data srt example_athletes example_coaches example_results = Inr [(''A'', 2)]"
proof -
  have "groupby_size (coach_name_column
          (merged_of (winners_of example_results) example_athletes example_coaches)) =
        [(''A'', 2)]"
    by code_simp
  then show ?thesis
    by (simp add: transform_data_def has_columns_def Let_def sort_values_ok_single[OF assms]
        example_results_def example_athletes_def example_coaches_def)
qed

theorem transform_data_example_witness:
  "sort_values_ok stable_sort_values \<and>
   transform_data stable_sort_values example_athletes example_coaches example_results =
     Inr [(''A'', 2)]"
  using transform_data_example[OF stable_sort_values_ok] stable_sort_values_ok by simp

subsection \<open>Rows that do not join\<close>

lemma df_merge_append:
  "df_merge lkey rkey (xs @ ys) right =
     df_merge lkey rkey xs right @ df_merge lkey rkey ys right"
  by (simp add: df_merge_def)

lemma df_merge_no_partner:
  "\<forall>l\<in>set left. \<forall>r\<in>set right. rkey r \<noteq> lkey l \<Longrightarrow> df_merge lkey rkey left right = []"
  by (induction left) (auto simp: df_merge_def filter_empty_conv)

lemma merged_of_append:
  "merged_of (xs @ ys) athletes coaches =
     merged_of xs athletes coaches @ merged_of ys athletes coaches"
  by (simp add: merged_of_def df_merge_append)

lemma merged_of_unjoinable:
  assumes "unjoinable athletes coaches r"
  shows "merged_of [r] athletes coaches = []"
  unfolding merged_of_def
  by (rule df_merge_no_partner) (use assms in \<open>auto simp: unjoinable_def set_df_merge\<close>)

lemma merged_of_drop:
  assumes "unjoinable athletes coaches r"
  shows "merged_of (winners_of (rs1 @ r # rs2)) athletes coaches =
         merged_of (winners_of (rs1 @ rs2)) athletes coaches"
proof (cases "r_place r = 1")
  case True
  then have "winners_of (rs1 @ r # rs2) = winners_of rs1 @ [r] @ winners_of rs2"
    by (simp add: winners_of_def)
  moreover have "winners_of (rs1 @ rs2) = winners_of rs1 @ winners_of rs2"
    by (simp add: winners_of_def)
  moreover have "merged_of ([r] @ ws) athletes coaches = merged_of ws athletes coaches" for ws
    by (simp only: merged_of_append merged_of_unjoinable[OF assms] append_Nil)
  ultimately show ?thesis
    by (simp only: merged_of_append)
next
  case False
  then show ?thesis by (simp add: winners_of_def)
qed

text \<open>
  Where the athletes and the coaches frames have their columns, a row that does not join
  is dropped silently: it adds no row to the merged frame, the transform returns a
  ranking, and whenever other result rows remain the outcome is the outcome on those
  remaining rows.
\<close>

lemma unjoinable_row_dropped:
  assumes "unjoinable athletes coaches r"
    and "athletes \<noteq> []" and "coaches \<noteq> []"
    and "ids_in_range athletes coaches (rs1 @ r # rs2)"
  shows "merged_of (winners_of (rs1 @ r # rs2)) athletes coaches =
           merged_of (winners_of (rs1 @ rs2)) athletes coaches"
    and "\<exists>out. transform_data srt athletes coaches (rs1 @ r # rs2) = Inr out"
    and "rs1 @ rs2 \<noteq> [] \<Longrightarrow>
           transform_data srt athletes coaches (rs1 @ r # rs2) =
           transform_data srt athletes coaches (rs1 @ rs2)"
  using assms(2,3)
  by (simp_all add: transform_data_def has_columns_def Let_def merged_of_drop[OF assms(1)])

text \<open>
  In the league input nobody lists athlete 99, and athlete 6 names coach 77, whom
  nobody lists. First places of both leave the ranking as it is.
\<close>

lemma league_unjoinable_run:
  "unjoinable league_athletes league_coaches \<lparr>r_athlete_id = 99, r_place = 1\<rparr> \<and>
   unjoinable league_athletes league_coaches \<lparr>r_athlete_id = 6, r_place = 1\<rparr> \<and>
   transform_data stable_sort_values league_athletes league_coaches
     (\<lparr>r_athlete_id = 99, r_place = 1\<rparr> # league_results @ [\<lparr>r_athlete_id = 6, r_place = 1\<rparr>]) =
     Inr [(''D'', 4), (''B'', 3), (''A'', 2)]"
  by code_simp

text \<open>
  With no athlete record at all, or no coach record at all, every result row is one
  that does not join.
\<close>

lemma unjoinable_no_athletes: "unjoinable [] coaches r"
  by (simp add: unjoinable_def)

lemma unjoinable_no_coaches: "unjoinable athletes [] r"
  by (simp add: unjoinable_def)

text \<open>
  C5. The claim is that a first place whose athlete id matches no athlete record, or
  whose coach id matches no coach record, is dropped silently and never makes the
  aggregation fail. The code does fail on such a row when there is no athlete record or
  no coach record at all: the frame built from the empty list has no column to merge on,
  and \<open>merge\<close> raises \<open>KeyError\<close>. Here athlete 1 has a first place and the athletes
  list is empty; and athlete 1 names coach 10 and the coaches list is empty.
\<close>

theorem transform_data_unjoinable_fails:
  "transform_data srt [] example_coaches [\<lparr>r_athlete_id = 1, r_place = 1\<rparr>] =
     Inl (KeyError ''athlete_id'') \<and>
   transform_data srt [\<lparr>a_athlete_id = 1, a_coach_id = 10\<rparr>] []
     [\<lparr>r_athlete_id = 1, r_place = 1\<rparr>] = Inl (KeyError ''coach_id'')"
  by (simp add: transform_data_def has_columns_def example_coaches_def)

subsection \<open>What load\_to\_database leaves in the table\<close>

lemma rows_insert_rows:
  "map (\<lambda>r. (coach_name r, first_places r)) (rows (insert_rows clock i es t)) =
   map (\<lambda>r. (coach_name r, first_places r)) (rows t) @ es"
  by (induction es arbitrary: i t) (simp_all add: Let_def)

lemma stored_entries_load: "stored_entries (load_to_database clock data d) = Some data"
  by (simp add: stored_entries_def load_to_database_def to_sql_append_def delete_all_def
      rows_insert_rows)

text \<open>
  C6. Whatever the database held before (no table, an empty table, the rows of an earlier
  run), after \<open>load_to_database\<close> the table exists and its rows are exactly the new
  entries, in their order, and nothing else: a full overwrite, not an append.
\<close>

theorem load_to_database_overwrites:
  "stored_entries (load_to_database clock data d) = Some data"
  by (simp add: stored_entries_def load_to_database_def to_sql_append_def delete_all_def
      rows_insert_rows)

text \<open>
  C7. Running \<open>load_to_database\<close> twice in succession with the same entries (at
  whatever times) leaves the table with exactly one copy of each entry: the stored
  entries are the entry list itself, not the list twice.
\<close>

theorem load_to_database_twice:
  "stored_entries (load_to_database clock2 data (load_to_database clock1 data d)) = Some data"
  by (simp only: stored_entries_load)

subsection \<open>Empty inputs\<close>

text \<open>
  With result rows present but none of them a first place, the transform returns the
  empty ranking.
\<close>

lemma transform_data_no_winners:
  assumes "sort_values_ok srt" "results \<noteq> []" "athletes \<noteq> []" "coaches \<noteq> []"
    and "\<forall>r\<in>set results. r_place r \<noteq> 1"
  shows "transform_data srt athletes coaches results = Inr []"
proof -
  have "winners_of results = []"
    using assms(5) by (simp add: winners_of_def filter_empty_conv)
  moreover have "srt [] = []"
    using assms(1) unfolding sort_values_ok_def by (metis mset_zero_iff)
  ultimately show ?thesis
    using assms(2-4)
    by (simp add: transform_data_def has_columns_def Let_def merged_of_def df_merge_def
        coach_name_column_def groupby_size_def)
qed

text \<open>
  C4. The claim is that the transform is total and returns the empty ranking for an
  empty results record set. The code does not: \<open>pd.DataFrame([])\<close> has no column
  \<open>place\<close>, and \<open>df_results['place']\<close> raises \<open>KeyError\<close> before anything is
  computed. (\<open>load_to_database\<close> on an empty ranking does leave the table with zero
  rows.)
\<close>

theorem transform_data_empty_results:
  "transform_data srt athletes coaches [] = Inl (KeyError ''place'') \<and>
   stored_entries (load_to_database clock [] d) = Some []"
  by (simp add: transform_data_def has_columns_def stored_entries_load)

subsection \<open>The order of the input rows\<close>

lemma mset_df_merge_left:
  "mset (df_merge lkey rkey left right) =
     (\<Sum>l\<in>#mset left. mset (map (Pair l) (filter (\<lambda>r. rkey r = lkey l) right)))"
  by (induction left) (simp_all add: df_merge_def)

lemma mset_df_merge:
  assumes "mset left = mset left'" and "mset right = mset right'"
  shows "mset (df_merge lkey rkey left right) = mset (df_merge lkey rkey left' right')"
proof -
  have "mset (map (Pair l) (filter (\<lambda>r. rkey r = lkey l) right)) =
        mset (map (Pair l) (filter (\<lambda>r. rkey r = lkey l) right'))" for l
    using assms(2) by simp
  then show ?thesis
    by (simp only: mset_df_merge_left assms(1))
qed

lemma groupby_size_mset:
  assumes "mset xs = mset ys"
  shows "groupby_size xs = groupby_size ys"
proof -
  have "count_list xs = count_list ys"
    using assms by (metis count_mset ext)
  moreover have "sort (remdups xs) = sort (remdups ys)"
    using assms by (metis sorted_list_of_set_sort_remdups mset_eq_setD)
  ultimately show ?thesis
    by (simp add: groupby_size_def)
qed

text \<open>
  The outcome does not depend on the order in which the records are listed: the groups
  are counted and laid out by name before they are sorted by count. (Whether two runs
  order entries with equal counts alike is a matter of the library's sorting routine,
  which is the parameter \<open>srt\<close> here.)
\<close>

lemma transform_data_row_order:
  assumes "mset athletes1 = mset athletes2"
    and "mset coaches1 = mset coaches2"
    and "mset results1 = mset results2"
  shows "transform_data srt athletes1 coaches1 results1 =
         transform_data srt athletes2 coaches2 results2"
proof -
  have e: "(athletes1 = []) = (athletes2 = [])" "(coaches1 = []) = (coaches2 = [])"
    "(results1 = []) = (results2 = [])"
    using assms by (metis mset_zero_iff)+
  have "mset (winners_of results1) = mset (winners_of results2)"
    using assms(3) by (simp add: winners_of_def)
  then have "mset (merged_of (winners_of results1) athletes1 coaches1) =
             mset (merged_of (winners_of results2) athletes2 coaches2)"
    unfolding merged_of_def by (intro mset_df_merge assms)
  then have "mset (coach_name_column (merged_of (winners_of results1) athletes1 coaches1)) =
             mset (coach_name_column (merged_of (winners_of results2) athletes2 coaches2))"
    unfolding coach_name_column_def by simp
  then have "groupby_size (coach_name_column (merged_of (winners_of results1) athletes1 coaches1)) =
             groupby_size (coach_name_column (merged_of (winners_of results2) athletes2 coaches2))"
    by (rule groupby_size_mset)
  then show ?thesis
    by (simp add: transform_data_def has_columns_def Let_def e)
qed

subsection \<open>Counts follow the joins, groups follow the name\<close>

lemma sum_list_filter_ind:
  "sum_list (map f (filter P xs)) = sum_list (map (\<lambda>x. if P x then f x else (0::nat)) xs)"
  by (induction xs) auto

lemma sum_list_swap:
  "sum_list (map (\<lambda>x. sum_list (map (\<lambda>y. f x y) ys)) xs) =
   sum_list (map (\<lambda>y. sum_list (map (\<lambda>x. (f x y :: nat)) xs)) ys)"
  by (induction xs) (auto simp: sum_list_addf)

lemma length_filter_ind:
  "length (filter P xs) = sum_list (map (\<lambda>x. if P x then 1 else 0) xs)"
  by (induction xs) auto

lemma sum_df_merge:
  "sum_list (map g (df_merge lkey rkey left right)) =
   sum_list (map (\<lambda>l. sum_list
     (map (\<lambda>r. if rkey r = lkey l then g (l, r) else (0::nat)) right)) left)"
  by (induction left) (simp_all add: df_merge_def sum_list_filter_ind comp_def)

lemma count_list_map_ind:
  "count_list (map f xs) n = sum_list (map (\<lambda>x. if f x = n then 1 else 0) xs)"
  by (induction xs) auto

lemma if_sum_list:
  "(if P then sum_list (map f xs) else (0::nat)) =
     sum_list (map (\<lambda>x. if P then f x else 0) xs)"
  by simp

lemma if_if_conj:
  "(if P then (if Q then a else 0) else 0) = (if P \<and> Q then a else (0::nat))"
  by simp

lemma count_merged:
  "count_list (coach_name_column (merged_of (winners_of results) athletes coaches)) n =
     joined_triples athletes coaches results n"
  unfolding coach_name_column_def merged_of_def winners_of_def joined_triples_def
  by (simp add: count_list_map_ind sum_df_merge sum_list_filter_ind if_sum_list if_if_conj
      conj_commute conj_left_commute)

lemma wins_of_name_triples:
  "wins_of_name athletes coaches results n = joined_triples athletes coaches results n"
proof -
  have "wins_of_name athletes coaches results n =
    sum_list (map (\<lambda>c. sum_list (map (\<lambda>a. sum_list (map (\<lambda>r.
        if r_place r = 1 \<and> a_athlete_id a = r_athlete_id r \<and> c_coach_id c = a_coach_id a \<and>
           c_coach_name c = n
        then 1 else 0) results)) athletes)) coaches)"
    unfolding wins_of_name_def wins_of_coach_def wins_of_athlete_def
    by (simp add: sum_list_filter_ind length_filter_ind if_sum_list if_if_conj
        conj_commute conj_left_commute
        eq_commute[of "r_athlete_id _" "a_athlete_id _"]
        eq_commute[of "a_coach_id _" "c_coach_id _"])
  also have "\<dots> = sum_list (map (\<lambda>c. sum_list (map (\<lambda>r. sum_list (map (\<lambda>a.
        if r_place r = 1 \<and> a_athlete_id a = r_athlete_id r \<and> c_coach_id c = a_coach_id a \<and>
           c_coach_name c = n
        then 1 else 0) athletes)) results)) coaches)"
    by (simp only: sum_list_swap[where xs = athletes and ys = results])
  also have "\<dots> = sum_list (map (\<lambda>r. sum_list (map (\<lambda>c. sum_list (map (\<lambda>a.
        if r_place r = 1 \<and> a_athlete_id a = r_athlete_id r \<and> c_coach_id c = a_coach_id a \<and>
           c_coach_name c = n
        then 1 else 0) athletes)) coaches)) results)"
    by (simp only: sum_list_swap[where xs = coaches and ys = results])
  also have "\<dots> = joined_triples athletes coaches results n"
    unfolding joined_triples_def
    by (simp only: sum_list_swap[where xs = coaches and ys = athletes])
  finally show ?thesis .
qed

lemma sort_values_ok_distinct:
  assumes "sort_values_ok srt" and "distinct (map fst xs)"
  shows "distinct (map fst (take n (srt xs)))"
proof -
  from assms(1) have "mset (map fst (srt xs)) = mset (map fst xs)"
    unfolding sort_values_ok_def by simp
  with assms(2) have "distinct (map fst (srt xs))"
    by (metis mset_eq_imp_distinct_iff)
  then have "distinct (take n (map fst (srt xs)))"
    by (rule distinct_take)
  then show ?thesis
    by (simp only: take_map)
qed

lemma rematch_ids: "ids_in_range rematch_athletes namesake_coaches namesake_results"
  by code_simp

lemma rematch_run:
  "transform_data stable_sort_values rematch_athletes namesake_coaches namesake_results =
     Inr [(''A'', 3)]"
  by code_simp

text \<open>
  C10. Counts follow join multiplicity and groups follow the coach name, for inputs
  whose ids are all in the signed 64-bit range. No name occurs twice in the ranking, and the count of an entry is the sum, over every coach record of
  that name whatever its identifier, of that coach's first places; a coach's first places
  are summed over every athlete record naming the coach, so an athlete id that occurs on
  two athlete records has each of its first places counted twice.
\<close>

theorem transform_data_counts:
  assumes "sort_values_ok srt"
    and "transform_data srt athletes coaches results = Inr out"
    and "ids_in_range athletes coaches results"
  shows "distinct (map fst out) \<and>
         (\<forall>e\<in>set out. snd e = wins_of_name athletes coaches results (fst e))"
proof -
  let ?names = "coach_name_column (merged_of (winners_of results) athletes coaches)"
  from assms(2) have out: "out = take 3 (srt (groupby_size ?names))"
    by (simp add: transform_data_Inr)
  have "distinct (map fst (groupby_size ?names))"
    by (simp add: map_fst_groupby_size)
  then have d: "distinct (map fst out)"
    unfolding out by (rule sort_values_ok_distinct[OF assms(1)])
  have "snd e = wins_of_name athletes coaches results (fst e)" if "e \<in> set out" for e
  proof -
    from that have "e \<in> set (srt (groupby_size ?names))"
      unfolding out by (rule in_set_takeD)
    then have "e \<in> set (groupby_size ?names)"
      by (simp add: sort_values_ok_set[OF assms(1)])
    then have "snd e = count_list ?names (fst e)"
      by (simp add: set_groupby_size)
    then show ?thesis
      by (simp add: count_merged wins_of_name_triples)
  qed
  with d show ?thesis by blast
qed

text \<open>
  Athlete 1 of coach 10 and athlete 2 of coach 11 have one first place each; athlete 2
  is listed twice, and both coaches are named A. Coach 10 has 1 first place, coach 11
  has 2, and the ranking is the single entry \<open>(A, 3)\<close>.
\<close>

theorem transform_data_counts_witness:
  "sort_values_ok stable_sort_values \<and>
   ids_in_range rematch_athletes namesake_coaches namesake_results \<and>
   transform_data stable_sort_values rematch_athletes namesake_coaches namesake_results =
     Inr [(''A'', 3)] \<and>
   wins_of_name rematch_athletes namesake_coaches namesake_results ''A'' = 3 \<and>
   wins_of_coach rematch_athletes namesake_results
     \<lparr>c_coach_id = 10, c_coach_name = ''A''\<rparr> = 1 \<and>
   wins_of_coach rematch_athletes namesake_results
     \<lparr>c_coach_id = 11, c_coach_name = ''A''\<rparr> = 2"
proof -
  from transform_data_counts[OF stable_sort_values_ok rematch_run rematch_ids]
  have "wins_of_name rematch_athletes namesake_coaches namesake_results ''A'' = 3"
    by simp
  moreover have "wins_of_coach rematch_athletes namesake_results
      \<lparr>c_coach_id = 10, c_coach_name = ''A''\<rparr> = 1"
    by code_simp
  moreover have "wins_of_coach rematch_athletes namesake_results
      \<lparr>c_coach_id = 11, c_coach_name = ''A''\<rparr> = 2"
    by code_simp
  ultimately show ?thesis
    using rematch_run stable_sort_values_ok rematch_ids by simp
qed

end
